theory Spec2Isabelle
  imports Main "HOL-Library.Word" "HOL-Library.Log_Nat"
begin

section \<open>The DFPlayer-Mini driver (lib/DFPlayer.py)\<close>

text \<open>
  The driver talks to the module through a UART object of which it uses three
  operations: \<open>in_waiting\<close>, \<open>read(10)\<close> and \<open>write(frame)\<close>. Python
  integers are \<open>int\<close>, a \<open>bytes\<close> object is a list of 8-bit words, a method that
  mutates \<open>self\<close> takes the state and returns the new one together with its
  result, and an exception is the \<open>Inl\<close> branch of the result. The state
  that an exception leaves behind is returned with it, as in Python.
\<close>

subsection \<open>The transport\<close>

type_synonym byte = "8 word"

text \<open>
  \<open>rx_buf\<close> holds the bytes that have arrived and were not read yet;
  \<open>device\<close> is the module at the other end of the line: the bytes it sends
  back for a frame written to it.
\<close>

record uart =
  rx_buf :: "byte list"
  device :: "byte list \<Rightarrow> byte list"

text \<open>What the driver does to the outside world, in the order it does it.\<close>

datatype event = Write "byte list" | Sleep nat

datatype error = ValueError string | Exception string

text \<open>
  The driver object: \<open>self._uart\<close>, \<open>self._latency\<close> (in milliseconds) and
  \<open>self._media\<close>, and the trace of writes and \<open>time.sleep\<close> calls (in
  milliseconds) made so far.
\<close>

record dfplayer =
  uart :: uart
  latency :: nat
  media :: int
  trace :: "event list"

definition in_waiting :: "uart \<Rightarrow> nat" where
  "in_waiting u = length (rx_buf u)"

text \<open>
  \<open>read(n)\<close> hands out at most \<open>n\<close> of the bytes that have arrived, and
  \<open>None\<close> when there is none.
\<close>

definition uart_read :: "nat \<Rightarrow> uart \<Rightarrow> byte list option \<times> uart" where
  "uart_read n u =
     (if rx_buf u = [] then (None, u)
      else (Some (take n (rx_buf u)), u\<lparr>rx_buf := drop n (rx_buf u)\<rparr>))"

definition uart_write :: "byte list \<Rightarrow> uart \<Rightarrow> uart" where
  "uart_write frame u = u\<lparr>rx_buf := rx_buf u @ device u frame\<rparr>"

definition sleep :: "nat \<Rightarrow> dfplayer \<Rightarrow> dfplayer" where
  "sleep ms s = s\<lparr>trace := trace s @ [Sleep ms]\<rparr>"

text \<open>The frames written and the time slept, read off a trace.\<close>

fun written :: "event list \<Rightarrow> byte list list" where
  "written [] = []"
| "written (Write f # es) = f # written es"
| "written (Sleep _ # es) = written es"

fun slept :: "event list \<Rightarrow> nat" where
  "slept [] = 0"
| "slept (Write _ # es) = slept es"
| "slept (Sleep ms # es) = ms + slept es"

subsection \<open>Frame codec\<close>

text \<open>\<open>bytes([...])\<close>: raises ValueError unless every element is in range(0, 256).\<close>

definition bytes :: "int list \<Rightarrow> error + byte list" where
  "bytes xs =
     (if list_all (\<lambda>x. 0 \<le> x \<and> x < 256) xs then Inr (map word_of_int xs)
      else Inl (ValueError ''bytes must be in range(0, 256)''))"

text \<open>The frame built at the head of \<open>_write_data\<close>.\<close>

definition frame :: "int \<Rightarrow> int \<Rightarrow> int \<Rightarrow> error + byte list" where
  "frame cmd dataL dataH = bytes [0x7E, 0xFF, 0x06, cmd, 0x00, dataH, dataL, 0xEF]"

text \<open>
  \<open>_write_data(cmd, dataL, dataH)\<close>: build the frame, write it, then give the
  device some time. The play and stop commands make no \<open>time.sleep\<close> call.
\<close>

definition write_data :: "int \<Rightarrow> int \<Rightarrow> int \<Rightarrow> dfplayer \<Rightarrow> (error + unit) \<times> dfplayer" where
  "write_data cmd dataL dataH s =
     (case frame cmd dataL dataH of
        Inl e \<Rightarrow> (Inl e, s)
      | Inr f \<Rightarrow>
          (let s1 = s\<lparr>uart := uart_write f (uart s), trace := trace s @ [Write f]\<rparr>
           in (Inr (),
               if cmd = 0x09 then sleep 200 s1
               else if cmd = 0x0C then sleep 1000 s1
               else if cmd \<in> {0x47, 0x48, 0x49, 0x4E} then sleep 500 s1
               else if cmd \<in> {0x03, 0x0D, 0x0F, 0x12, 0x13} \<or> cmd \<in> {0x16} then s1
               else sleep (latency s1) s1)))"

text \<open>
  The checks and the unpacking of \<open>_read_data\<close>, on the buffer that
  \<open>read(10)\<close> returned. \<open>buf[5:7]\<close> has two bytes when the length is 10, and
  \<open>struct.unpack(">H", ...)\<close> reads them as a big-endian unsigned 16-bit value.
\<close>

definition decode :: "byte list \<Rightarrow> (int \<times> int) option" where
  "decode buf =
     (if buf = [] \<or> length buf \<noteq> 10 then None
      else if buf ! 0 \<noteq> 0x7E \<or> buf ! 1 \<noteq> 0xFF \<or> buf ! 2 \<noteq> 0x06 \<or> buf ! 9 \<noteq> 0xEF then None
      else Some (uint (buf ! 3), uint (buf ! 5) * 256 + uint (buf ! 6)))"

definition read_data :: "dfplayer \<Rightarrow> (int \<times> int) option \<times> dfplayer" where
  "read_data s =
     (if in_waiting (uart s) = 0 then (None, s)
      else (case uart_read 10 (uart s) of
              (None, u) \<Rightarrow> (None, s\<lparr>uart := u\<rparr>)
            | (Some buf, u) \<Rightarrow> (decode buf, s\<lparr>uart := u\<rparr>)))"

subsection \<open>Response poller\<close>

text \<open>
  The loop of \<open>_read_response\<close>, with \<open>res\<close> as its accumulator. A tuple is
  never falsy, so \<open>not r\<close> holds exactly when \<open>_read_data\<close> returned None.
\<close>

text \<open>A read that yields a frame takes bytes off the line, so the loop ends.\<close>

lemma read_data_Some_shorter:
  "read_data s = (Some r, s') \<Longrightarrow> length (rx_buf (uart s')) < length (rx_buf (uart s))"
  by (auto simp: read_data_def in_waiting_def uart_read_def split: if_splits)

function read_response_loop :: "(int \<times> int) option \<Rightarrow> dfplayer \<Rightarrow> (int \<times> int) option \<times> dfplayer" where
  "read_response_loop res s =
     (case read_data s of
        (None, s') \<Rightarrow> (res, s')
      | (Some r, s') \<Rightarrow> read_response_loop (Some r) s')"
  by pat_completeness auto

termination
proof (relation "measure (\<lambda>(res, s). length (rx_buf (uart s)))")
  show "wf (measure (\<lambda>(res, s). length (rx_buf (uart s))))"
    by simp
next
  fix res x :: "(int \<times> int) option" and s s' :: dfplayer and r :: "int \<times> int"
  assume "(x, s') = read_data s" and "x = Some r"
  then have "read_data s = (Some r, s')"
    by simp
  then have "length (rx_buf (uart s')) < length (rx_buf (uart s))"
    by (rule read_data_Some_shorter)
  then show "((Some r, s'), (res, s)) \<in> measure (\<lambda>(res, s). length (rx_buf (uart s)))"
    by simp
qed

declare read_response_loop.simps [simp del]

definition read_response :: "dfplayer \<Rightarrow> (int \<times> int) option \<times> dfplayer" where
  "read_response s = read_response_loop None s"

subsection \<open>Python float arithmetic\<close>

text \<open>
  \<open>/\<close> on two Python integers is true division: the result is the binary64
  float nearest to the exact quotient, ties to even. A float times an integer
  converts the integer (here the constant 100, which is exact) and rounds the
  exact product the same way, and \<open>int(x)\<close> truncates. A float is held here
  as a pair \<open>(m, e)\<close> that stands for \<open>m * 2 ^ e\<close>, with \<open>m\<close> of at most 53
  bits. The driver divides and multiplies nonnegative values only (the percent is
  clamped to 0..100 first, the reply's data is an unsigned 16-bit value), by the
  constants 100 and \<open>MAX_VOLUME\<close>, far from overflow and underflow, so these
  definitions cover nonnegative operands, a positive divisor and an unbounded
  exponent.
\<close>

type_synonym pyfloat = "int \<times> int"

text \<open>Numerator and denominator of \<open>n / (d * 2 ^ e)\<close>.\<close>

definition scale2 :: "int \<Rightarrow> int \<Rightarrow> int \<Rightarrow> int \<times> int" where
  "scale2 n d e = (if 0 \<le> e then (n, d * 2 ^ nat e) else (n * 2 ^ nat (- e), d))"

text \<open>The integer nearest to \<open>n / d\<close>, ties to even.\<close>

definition round_half_even :: "int \<Rightarrow> int \<Rightarrow> int" where
  "round_half_even n d =
     (let q = n div d; r = n mod d
      in if 2 * r < d then q
         else if d < 2 * r then q + 1
         else if even q then q else q + 1)"

text \<open>
  \<open>n / d\<close> rounded to 53 significant bits: the exponent \<open>e\<close> is chosen with
  \<open>2 ^ 52 \<le> n / (d * 2 ^ e) < 2 ^ 53\<close>.
\<close>

definition round53 :: "int \<Rightarrow> int \<Rightarrow> pyfloat" where
  "round53 n d =
     (if n = 0 then (0, 0)
      else
        (let e1 = bitlen n - bitlen d - 53;
             e = (case scale2 n d e1 of (n1, d1) \<Rightarrow> if 2 ^ 53 * d1 \<le> n1 then e1 + 1 else e1)
         in case scale2 n d e of (n2, d2) \<Rightarrow> (round_half_even n2 d2, e)))"

definition truediv :: "int \<Rightarrow> int \<Rightarrow> pyfloat" where
  "truediv a b = round53 a b"

definition float_mul :: "pyfloat \<Rightarrow> int \<Rightarrow> pyfloat" where
  "float_mul x k = (case x of (m, e) \<Rightarrow> (case round53 (m * k) 1 of (m', e') \<Rightarrow> (m', e' + e)))"

definition int_of_float :: "pyfloat \<Rightarrow> int" where
  "int_of_float x = (case x of (m, e) \<Rightarrow> if 0 \<le> e then m * 2 ^ nat e else m div 2 ^ nat (- e))"

subsection \<open>Command driver\<close>

abbreviation (input) MEDIA_U_DISK :: int where "MEDIA_U_DISK \<equiv> 1"
abbreviation (input) MEDIA_SD :: int where "MEDIA_SD \<equiv> 2"
abbreviation (input) MEDIA_AUX :: int where "MEDIA_AUX \<equiv> 3"
abbreviation (input) MEDIA_SLEEP :: int where "MEDIA_SLEEP \<equiv> 4"
abbreviation (input) MEDIA_FLASH :: int where "MEDIA_FLASH \<equiv> 5"
abbreviation (input) MAX_VOLUME :: int where "MAX_VOLUME \<equiv> 0x1E"

text \<open>\<open>play(folder=None, track=None)\<close>; an argument left out is \<open>None\<close>.\<close>

definition play :: "int option \<Rightarrow> int option \<Rightarrow> dfplayer \<Rightarrow> (error + unit) \<times> dfplayer" where
  "play folder track s =
     (case (folder, track) of
        (None, None) \<Rightarrow> write_data 0x0D 0 0 s
      | (None, Some t) \<Rightarrow> write_data 0x03 (t mod 256) (t div 256) s
      | (Some f, None) \<Rightarrow> write_data 0x12 f 0 s
      | (Some f, Some t) \<Rightarrow> write_data 0x0F t f s)"

definition play_advert :: "int \<Rightarrow> dfplayer \<Rightarrow> (error + unit) \<times> dfplayer" where
  "play_advert track s =
     (if \<not> (1 \<le> track \<and> track \<le> 9999)
      then (Inl (ValueError ''Track must be between 1 and 9999''), s)
      else write_data 0x13 (track mod 256) (track div 256) s)"

definition stop_advert :: "dfplayer \<Rightarrow> (error + unit) \<times> dfplayer" where
  "stop_advert s = write_data 0x15 0 0 s"

definition stop :: "dfplayer \<Rightarrow> (error + unit) \<times> dfplayer" where
  "stop s = write_data 0x16 0 0 s"

definition set_volume :: "int \<Rightarrow> dfplayer \<Rightarrow> (error + unit) \<times> dfplayer" where
  "set_volume percent s =
     (let percent = max 0 (min 100 percent)
      in write_data 0x06 (int_of_float (truediv (percent * MAX_VOLUME) 100)) 0 s)"

definition get_volume :: "dfplayer \<Rightarrow> (error + int) \<times> dfplayer" where
  "get_volume s =
     (case write_data 0x43 0 0 s of
        (Inl e, s1) \<Rightarrow> (Inl e, s1)
      | (Inr _, s1) \<Rightarrow>
          (case read_response s1 of
             (r, s2) \<Rightarrow>
               (Inr (case r of
                       None \<Rightarrow> 0
                     | Some (c, d) \<Rightarrow>
                         if c = 0x43 then int_of_float (float_mul (truediv d MAX_VOLUME) 100)
                         else 0),
                s2)))"

definition set_eq :: "int \<Rightarrow> dfplayer \<Rightarrow> (error + unit) \<times> dfplayer" where
  "set_eq eq s = (let eq = (if eq < 0 \<or> 5 < eq then 0 else eq) in write_data 0x07 eq 0 s)"

definition get_eq :: "dfplayer \<Rightarrow> (error + int) \<times> dfplayer" where
  "get_eq s =
     (case write_data 0x44 0 0 s of
        (Inl e, s1) \<Rightarrow> (Inl e, s1)
      | (Inr _, s1) \<Rightarrow>
          (case read_response s1 of
             (r, s2) \<Rightarrow>
               (Inr (case r of None \<Rightarrow> 0 | Some (c, d) \<Rightarrow> if c = 0x44 then d else 0), s2)))"

definition set_media :: "int \<Rightarrow> dfplayer \<Rightarrow> (error + unit) \<times> dfplayer" where
  "set_media m s = write_data 0x09 m 0 (s\<lparr>media := m\<rparr>)"

definition get_status :: "dfplayer \<Rightarrow> (error + int option) \<times> dfplayer" where
  "get_status s =
     (case write_data 0x42 0 0 s of
        (Inl e, s1) \<Rightarrow> (Inl e, s1)
      | (Inr _, s1) \<Rightarrow>
          (case read_response s1 of
             (r, s2) \<Rightarrow>
               (Inr (case r of None \<Rightarrow> None | Some (c, d) \<Rightarrow> if c = 0x42 then Some d else None),
                s2)))"

definition get_mode :: "dfplayer \<Rightarrow> (error + int option) \<times> dfplayer" where
  "get_mode s =
     (case write_data 0x45 0 0 s of
        (Inl e, s1) \<Rightarrow> (Inl e, s1)
      | (Inr _, s1) \<Rightarrow>
          (case read_response s1 of
             (r, s2) \<Rightarrow>
               (Inr (case r of None \<Rightarrow> None | Some (c, d) \<Rightarrow> if c = 0x45 then Some d else None),
                s2)))"

definition get_version :: "dfplayer \<Rightarrow> (error + int option) \<times> dfplayer" where
  "get_version s =
     (case write_data 0x46 0 0 s of
        (Inl e, s1) \<Rightarrow> (Inl e, s1)
      | (Inr _, s1) \<Rightarrow>
          (case read_response s1 of
             (r, s2) \<Rightarrow>
               (Inr (case r of None \<Rightarrow> None | Some (c, d) \<Rightarrow> if c = 0x46 then Some d else None),
                s2)))"

definition current_file :: "dfplayer \<Rightarrow> (error + int option) \<times> dfplayer" where
  "current_file s =
     (case write_data 0x4C 0 0 s of
        (Inl e, s1) \<Rightarrow> (Inl e, s1)
      | (Inr _, s1) \<Rightarrow>
          (case read_response s1 of
             (r, s2) \<Rightarrow>
               (Inr (case r of None \<Rightarrow> None | Some (c, d) \<Rightarrow> if c = 0x4C then Some d else None),
                s2)))"

text \<open>
  \<open>num_files(folder=None, media=None)\<close>. \<open>media or self._media\<close> takes the
  stored media source when the argument is None or 0; \<open>not cmd\<close> holds when the
  dictionary has no entry (or a zero one, which it never has).
\<close>

definition num_files :: "int option \<Rightarrow> int option \<Rightarrow> dfplayer \<Rightarrow> (error + int) \<times> dfplayer" where
  "num_files folder media_arg s =
     (case folder of
        Some f \<Rightarrow>
          (case write_data 0x4E f 0 s of
             (Inl e, s1) \<Rightarrow> (Inl e, s1)
           | (Inr _, s1) \<Rightarrow>
               (case read_response s1 of
                  (r, s2) \<Rightarrow>
                    (Inr (case r of None \<Rightarrow> 0 | Some (c, d) \<Rightarrow> if c = 0x4E then d else 0), s2)))
      | None \<Rightarrow>
          (let m = (case media_arg of None \<Rightarrow> media s | Some a \<Rightarrow> if a = 0 then media s else a);
               cmd = map_of [(MEDIA_U_DISK, 0x47), (MEDIA_SD, 0x48), (MEDIA_FLASH, 0x49 :: int)] m
           in case cmd of
                None \<Rightarrow> (Inr 0, s)
              | Some c \<Rightarrow>
                  if c = 0 then (Inr 0, s)
                  else
                    (case write_data c 0 0 s of
                       (Inl e, s1) \<Rightarrow> (Inl e, s1)
                     | (Inr _, s1) \<Rightarrow>
                         (case read_response s1 of
                            (r, s2) \<Rightarrow>
                              (Inr (case r of None \<Rightarrow> 0 | Some (c', d) \<Rightarrow> if c' = c then d else 0),
                               s2)))))"

text \<open>
  \<open>__init__(uart, media, volume_pct, eq, latency)\<close>, with the UART given by the
  caller. \<open>self._media\<close> does not exist before \<open>set_media\<close> assigns it, which is
  the first thing that happens, so the record starts with that value.
  \<open>not self.get_status()\<close> holds for \<open>None\<close> and for the status value 0.
\<close>

definition init :: "uart \<Rightarrow> int \<Rightarrow> int \<Rightarrow> int \<Rightarrow> nat \<Rightarrow> (error + unit) \<times> dfplayer" where
  "init u m volume_pct eq lat =
     (let s0 = \<lparr>uart = u, latency = lat, media = m, trace = []\<rparr>
      in case set_media m s0 of
           (Inl e, s1) \<Rightarrow> (Inl e, s1)
         | (Inr _, s1) \<Rightarrow>
             (case get_status s1 of
                (Inl e, s2) \<Rightarrow> (Inl e, s2)
              | (Inr st, s2) \<Rightarrow>
                  if st = None \<or> st = Some 0
                  then (Inl (Exception ''DFPlayer could not be initialized.''), s2)
                  else
                    (case set_volume volume_pct s2 of
                       (Inl e, s3) \<Rightarrow> (Inl e, s3)
                     | (Inr _, s3) \<Rightarrow> set_eq eq s3)))"

subsection \<open>Test fixtures\<close>

text \<open>
  A driver as the constructor's defaults leave it (latency 100 ms, media source
  SD), on a line that holds the bytes \<open>rx\<close> and whose device answers a written
  frame \<open>f\<close> with \<open>dev f\<close>.
\<close>

definition driver_with :: "byte list \<Rightarrow> (byte list \<Rightarrow> byte list) \<Rightarrow> dfplayer" where
  "driver_with rx dev =
     \<lparr>uart = \<lparr>rx_buf = rx, device = dev\<rparr>, latency = 100, media = MEDIA_SD, trace = []\<rparr>"

text \<open>
  The 10-byte response that carries the markers, the command and the data bytes
  of an 8-byte command frame, with a feedback byte and two checksum bytes of the
  caller's choice.
\<close>

definition synthetic_response :: "byte list \<Rightarrow> byte \<Rightarrow> byte \<Rightarrow> byte \<Rightarrow> byte list" where
  "synthetic_response f fb ckH ckL = take 4 f @ [fb] @ take 2 (drop 5 f) @ [ckH, ckL] @ drop 7 f"

section \<open>Properties\<close>

subsection \<open>Auxiliary facts\<close>

lemma uint_byte: "0 \<le> x \<Longrightarrow> x < 256 \<Longrightarrow> uint (word_of_int x :: byte) = x"
  by (simp add: uint_word_of_int)

lemma frame_Inr:
  "0 \<le> cmd \<Longrightarrow> cmd < 256 \<Longrightarrow> 0 \<le> dataL \<Longrightarrow> dataL < 256 \<Longrightarrow> 0 \<le> dataH \<Longrightarrow> dataH < 256 \<Longrightarrow>
   frame cmd dataL dataH =
     Inr [0x7E, 0xFF, 0x06, word_of_int cmd, 0x00, word_of_int dataH, word_of_int dataL, 0xEF]"
  by (simp add: frame_def bytes_def)

lemma frame_Inl:
  "\<not> (0 \<le> cmd \<and> cmd < 256 \<and> 0 \<le> dataL \<and> dataL < 256 \<and> 0 \<le> dataH \<and> dataH < 256) \<Longrightarrow>
   frame cmd dataL dataH = Inl (ValueError ''bytes must be in range(0, 256)'')"
  by (auto simp add: frame_def bytes_def)

lemma read_data_eq:
  "read_data s =
     (decode (take 10 (rx_buf (uart s))), s\<lparr>uart := (uart s)\<lparr>rx_buf := drop 10 (rx_buf (uart s))\<rparr>\<rparr>)"
  by (simp add: read_data_def in_waiting_def uart_read_def decode_def)

lemma slept_append: "slept (xs @ ys) = slept xs + slept ys"
  by (induction xs rule: slept.induct) simp_all

lemma written_append: "written (xs @ ys) = written xs @ written ys"
  by (induction xs rule: written.induct) simp_all

lemma write_data_Inl:
  "frame cmd dataL dataH = Inl e \<Longrightarrow> write_data cmd dataL dataH s = (Inl e, s)"
  by (simp add: write_data_def)

lemma write_data_Inr:
  assumes "frame cmd dataL dataH = Inr f"
  shows "fst (write_data cmd dataL dataH s) = Inr ()"
    and "written (trace (snd (write_data cmd dataL dataH s))) = written (trace s) @ [f]"
    and "media (snd (write_data cmd dataL dataH s)) = media s"
    and "latency (snd (write_data cmd dataL dataH s)) = latency s"
  using assms by (simp_all add: write_data_def sleep_def written_append Let_def)

lemma read_response_loop_state:
  "\<exists>rx'. snd (read_response_loop res s) = s\<lparr>uart := (uart s)\<lparr>rx_buf := rx'\<rparr>\<rparr>"
proof (induction res s rule: read_response_loop.induct)
  case (1 res s)
  let ?s' = "s\<lparr>uart := (uart s)\<lparr>rx_buf := drop 10 (rx_buf (uart s))\<rparr>\<rparr>"
  show ?case
  proof (cases "decode (take 10 (rx_buf (uart s)))")
    case None
    then have "snd (read_response_loop res s) = ?s'"
      by (subst read_response_loop.simps) (simp add: read_data_eq)
    then show ?thesis
      by blast
  next
    case (Some r)
    then have rd: "(Some r, ?s') = read_data s"
      by (simp add: read_data_eq)
    from 1 [OF rd refl] obtain rx' where
      "snd (read_response_loop (Some r) ?s') = ?s'\<lparr>uart := (uart ?s')\<lparr>rx_buf := rx'\<rparr>\<rparr>"
      by blast
    moreover have "read_response_loop res s = read_response_loop (Some r) ?s'"
      using rd [symmetric] by (subst read_response_loop.simps) simp
    ultimately have "snd (read_response_loop res s) = s\<lparr>uart := (uart s)\<lparr>rx_buf := rx'\<rparr>\<rparr>"
      by simp
    then show ?thesis
      by blast
  qed
qed

lemma read_response_state:
  "\<exists>rx'. snd (read_response s) = s\<lparr>uart := (uart s)\<lparr>rx_buf := rx'\<rparr>\<rparr>"
  by (simp add: read_response_def read_response_loop_state)

lemma read_response_trace: "trace (snd (read_response s)) = trace s"
  using read_response_state [of s] by auto

lemma read_response_media: "media (snd (read_response s)) = media s"
  using read_response_state [of s] by auto

lemma read_response_latency: "latency (snd (read_response s)) = latency s"
  using read_response_state [of s] by auto

lemma read_response_device: "device (uart (snd (read_response s))) = device (uart s)"
  using read_response_state [of s] by auto

lemma scale_0_100:
  "list_all (\<lambda>p. int_of_float (truediv (p * 30) 100) = p * 30 div 100) (map int [0..<101])"
  by code_simp

lemma volume_scale:
  assumes "0 \<le> p" "p \<le> 100"
  shows "int_of_float (truediv (p * 30) 100) = p * 30 div 100"
proof -
  from assms have "nat p \<in> set [0..<101]" and "p = int (nat p)"
    by auto
  then have "p \<in> set (map int [0..<101])"
    by (metis image_eqI set_map)
  with scale_0_100 show ?thesis
    by (simp only: list_all_iff)
qed

lemma set_volume_clamped:
  "set_volume p s = write_data 0x06 (max 0 (min 100 p) * 30 div 100) 0 s"
  by (simp add: set_volume_def Let_def volume_scale)

lemma rescale_0_68:
  "list_all (\<lambda>r. int_of_float (float_mul (truediv r 30) 100) = r * 100 div 30) (map int [0..<69])"
  by code_simp

lemma volume_rescale:
  assumes "0 \<le> r" "r \<le> 68"
  shows "int_of_float (float_mul (truediv r 30) 100) = r * 100 div 30"
proof -
  from assms have "nat r \<in> set [0..<69]" and "r = int (nat r)"
    by auto
  then have "r \<in> set (map int [0..<69])"
    by (metis image_eqI set_map)
  with rescale_0_68 show ?thesis
    by (simp only: list_all_iff)
qed

lemma write_data_fst_const:
  "0 \<le> q \<Longrightarrow> q < 256 \<Longrightarrow> 0 \<le> dl \<Longrightarrow> dl < 256 \<Longrightarrow> fst (write_data q dl 0 s) = Inr ()"
  by (simp add: write_data_Inr(1) [OF frame_Inr])

lemma query_fst:
  assumes "0 \<le> q" "q < 256" "0 \<le> dl" "dl < 256"
  shows "fst (case write_data q dl 0 s of
               (Inl e, s1) \<Rightarrow> (Inl e, s1)
             | (Inr u, s1) \<Rightarrow> (case read_response s1 of (r, s2) \<Rightarrow> (Inr (g r), s2)))
         = Inr (g (fst (read_response (snd (write_data q dl 0 s)))))"
proof -
  obtain u s1 where w: "write_data q dl 0 s = (Inr u, s1)"
    using write_data_fst_const [OF assms, of s] by (cases "write_data q dl 0 s") auto
  then show ?thesis
    by (simp split: prod.split)
qed

lemmas eval_defs = read_response_def read_response_loop.simps read_data_eq decode_def
  write_data_def frame_def bytes_def uart_write_def sleep_def driver_with_def

lemma query_pair:
  assumes "0 \<le> q" "q < 256" "0 \<le> dl" "dl < 256"
  shows "(case write_data q dl 0 s of
            (Inl e, s1) \<Rightarrow> (Inl e, s1)
          | (Inr u, s1) \<Rightarrow> (case read_response s1 of (r, s2) \<Rightarrow> (Inr (g r), s2)))
         = (Inr (g (fst (read_response (snd (write_data q dl 0 s))))),
            snd (read_response (snd (write_data q dl 0 s))))"
proof -
  obtain u s1 where w: "write_data q dl 0 s = (Inr u, s1)"
    using write_data_fst_const [OF assms, of s] by (cases "write_data q dl 0 s") auto
  then show ?thesis
    by (simp split: prod.split)
qed

lemma set_eq_written:
  "fst (set_eq e s) = Inr ()
   \<and> written (trace (snd (set_eq e s))) =
       written (trace s) @
       [[0x7E, 0xFF, 0x06, 0x07, 0x00, 0x00, word_of_int (if e < 0 \<or> 5 < e then 0 else e), 0xEF]]"
proof -
  have "0 \<le> (if e < 0 \<or> 5 < e then 0 else e)" and "(if e < 0 \<or> 5 < e then 0 else e) < 256"
    by auto
  then have "frame 0x07 (if e < 0 \<or> 5 < e then 0 else e) 0 =
      Inr [0x7E, 0xFF, 0x06, 0x07, 0x00, 0x00, word_of_int (if e < 0 \<or> 5 < e then 0 else e), 0xEF]"
    by (simp add: frame_Inr)
  then show ?thesis
    by (simp only: set_eq_def Let_def write_data_Inr(1,2))
qed

lemma set_volume_written:
  "fst (set_volume p s) = Inr ()
   \<and> written (trace (snd (set_volume p s))) =
       written (trace s) @
       [[0x7E, 0xFF, 0x06, 0x06, 0x00, 0x00, word_of_int (max 0 (min 100 p) * 30 div 100), 0xEF]]"
proof -
  have "0 \<le> max 0 (min 100 p) * 30 div 100" and "max 0 (min 100 p) * 30 div 100 < 256"
    by auto
  then have "frame 0x06 (max 0 (min 100 p) * 30 div 100) 0 =
      Inr [0x7E, 0xFF, 0x06, 0x06, 0x00, 0x00, word_of_int (max 0 (min 100 p) * 30 div 100), 0xEF]"
    by (simp add: frame_Inr)
  then show ?thesis
    by (simp only: set_volume_clamped write_data_Inr(1,2))
qed

lemma read_response_loop_None:
  "decode (take 10 (rx_buf (uart s))) = None \<Longrightarrow>
   read_response_loop res s = (res, s\<lparr>uart := (uart s)\<lparr>rx_buf := drop 10 (rx_buf (uart s))\<rparr>\<rparr>)"
  by (subst read_response_loop.simps) (simp add: read_data_eq)

lemma read_response_loop_Some:
  "decode (take 10 (rx_buf (uart s))) = Some r \<Longrightarrow>
   read_response_loop res s =
     read_response_loop (Some r) (s\<lparr>uart := (uart s)\<lparr>rx_buf := drop 10 (rx_buf (uart s))\<rparr>\<rparr>)"
  by (subst read_response_loop.simps) (simp add: read_data_eq)

lemma read_response_empty:
  "rx_buf (uart s) = [] \<Longrightarrow> read_response s = (None, s)"
  by (simp add: read_response_def read_response_loop_None decode_def)

text \<open>A line that holds valid frames only is drained to its end, and the last frame is the result.\<close>

lemma decode_Some_length: "decode f = Some r \<Longrightarrow> length f = 10"
  by (simp add: decode_def split: if_splits)

lemma read_response_loop_valid_frames:
  "\<forall>f \<in> set fs. decode f \<noteq> None \<Longrightarrow> rx_buf (uart s) = concat fs \<Longrightarrow>
   read_response_loop res s =
     (if fs = [] then res else decode (last fs), s\<lparr>uart := (uart s)\<lparr>rx_buf := []\<rparr>\<rparr>)"
proof (induction fs arbitrary: res s)
  case Nil
  then show ?case
    by (simp add: read_response_loop_None decode_def)
next
  case (Cons f fs)
  then obtain r where r: "decode f = Some r"
    by auto
  then have len: "length f = 10"
    by (rule decode_Some_length)
  let ?s' = "s\<lparr>uart := (uart s)\<lparr>rx_buf := drop 10 (rx_buf (uart s))\<rparr>\<rparr>"
  from Cons.prems(2) len r have "decode (take 10 (rx_buf (uart s))) = Some r"
    by simp
  then have step: "read_response_loop res s = read_response_loop (Some r) ?s'"
    by (rule read_response_loop_Some)
  from Cons.prems(2) len have rest: "rx_buf (uart ?s') = concat fs"
    by simp
  from Cons.prems(1) have "\<forall>f \<in> set fs. decode f \<noteq> None"
    by simp
  from Cons.IH [OF this rest, of "Some r"] step r show ?case
    by simp
qed

lemma read_response_valid_frames:
  "fs \<noteq> [] \<Longrightarrow> \<forall>f \<in> set fs. decode f \<noteq> None \<Longrightarrow> rx_buf (uart s) = concat fs \<Longrightarrow>
   fst (read_response s) = decode (last fs)"
  by (simp add: read_response_def read_response_loop_valid_frames)

subsection \<open>Decoding\<close>

text \<open>
  Claim C4. Decoding yields no frame exactly when the buffer is not 10 bytes long
  or one of the four markers (bytes 0, 1, 2 and 9) is wrong. A frame that decodes
  gives the command echo of byte 3 and the big-endian 16-bit value of bytes 5 and
  6. The feedback byte and the two checksum bytes (4, 7 and 8) are never looked
  at: overwriting them changes nothing. \<open>_read_data\<close> decodes the next 10 bytes
  of the line this way.
\<close>

theorem decode_spec:
  "(decode buf = None \<longleftrightarrow>
      length buf \<noteq> 10 \<or> buf ! 0 \<noteq> 0x7E \<or> buf ! 1 \<noteq> 0xFF \<or> buf ! 2 \<noteq> 0x06 \<or> buf ! 9 \<noteq> 0xEF)
   \<and> (decode buf \<noteq> None \<longrightarrow>
        decode buf = Some (uint (buf ! 3), uint (buf ! 5) * 256 + uint (buf ! 6)))
   \<and> decode (buf[4 := fb, 7 := ckH, 8 := ckL]) = decode buf
   \<and> fst (read_data s) = decode (take 10 (rx_buf (uart s)))"
  by (auto simp add: decode_def read_data_eq)

theorem decode_spec_witness:
  "decode [0x7E, 0xFF, 0x06, 0x42, 0x00, 0x02, 0x01, 0xFE, 0xB6, 0xEF] = Some (0x42, 0x0201)"
  using decode_spec [of "[0x7E, 0xFF, 0x06, 0x42, 0x00, 0x02, 0x01, 0xFE, 0xB6, 0xEF]"]
  by simp

text \<open>
  Claim C5. For every command code and every pair of data bytes in 0..255, the
  command frame is built (8 bytes), and the decoder, fed the 10-byte response
  with the frame's markers, command and data bytes (and any feedback and checksum
  bytes), yields the command and \<open>dataH * 256 + dataL\<close>.
\<close>

theorem encode_decode_roundtrip:
  assumes "0 \<le> cmd" "cmd < 256" "0 \<le> dataL" "dataL < 256" "0 \<le> dataH" "dataH < 256"
  shows "\<exists>f. frame cmd dataL dataH = Inr f \<and> length f = 8
           \<and> decode (synthetic_response f fb ckH ckL) = Some (cmd, dataH * 256 + dataL)"
  using assms by (simp add: frame_Inr synthetic_response_def decode_def uint_byte)

theorem encode_decode_roundtrip_witness:
  "\<exists>f. frame 0x13 0x0F 0x27 = Inr f \<and> length f = 8
         \<and> decode (synthetic_response f 0 0xFE 0xB2) = Some (0x13, 9999)"
  using encode_decode_roundtrip [of "0x13" "0x0F" "0x27" 0 "0xFE" "0xB2"] by simp

subsection \<open>Advert overlay\<close>

text \<open>
  Claim C6. \<open>play_advert(track)\<close> raises ValueError and leaves the driver and
  the line as they were (nothing is written) when the track is outside 1..9999.
  For a track in 1..9999 it returns normally after writing the one frame of
  command 0x13 with \<open>track // 256\<close> in the high and \<open>track % 256\<close> in the low
  data byte, and sleeps not at all.
\<close>

theorem play_advert_spec:
  "(\<not> (1 \<le> track \<and> track \<le> 9999) \<longrightarrow>
      play_advert track s = (Inl (ValueError ''Track must be between 1 and 9999''), s))
   \<and> (1 \<le> track \<and> track \<le> 9999 \<longrightarrow>
      fst (play_advert track s) = Inr ()
      \<and> trace (snd (play_advert track s)) =
          trace s @ [Write [0x7E, 0xFF, 0x06, 0x13, 0x00,
                            word_of_int (track div 256), word_of_int (track mod 256), 0xEF]])"
proof (intro conjI impI)
  assume "\<not> (1 \<le> track \<and> track \<le> 9999)"
  then show "play_advert track s = (Inl (ValueError ''Track must be between 1 and 9999''), s)"
    by (simp add: play_advert_def)
next
  assume r: "1 \<le> track \<and> track \<le> 9999"
  then have "0 \<le> track div 256" and "track div 256 < 256"
    by auto
  then have f: "frame 0x13 (track mod 256) (track div 256) =
      Inr [0x7E, 0xFF, 0x06, 0x13, 0x00, word_of_int (track div 256), word_of_int (track mod 256), 0xEF]"
    by (simp add: frame_Inr)
  from r f show "fst (play_advert track s) = Inr ()"
    by (simp add: play_advert_def write_data_def)
  from r f show "trace (snd (play_advert track s)) =
          trace s @ [Write [0x7E, 0xFF, 0x06, 0x13, 0x00,
                            word_of_int (track div 256), word_of_int (track mod 256), 0xEF]]"
    by (simp add: play_advert_def write_data_def)
qed

theorem play_advert_spec_witness:
  "play_advert 0 (driver_with [] (\<lambda>f. [])) =
     (Inl (ValueError ''Track must be between 1 and 9999''), driver_with [] (\<lambda>f. []))
   \<and> play_advert 10000 (driver_with [] (\<lambda>f. [])) =
     (Inl (ValueError ''Track must be between 1 and 9999''), driver_with [] (\<lambda>f. []))
   \<and> trace (snd (play_advert 1 (driver_with [] (\<lambda>f. [])))) =
       [Write [0x7E, 0xFF, 0x06, 0x13, 0x00, 0x00, 0x01, 0xEF]]
   \<and> trace (snd (play_advert 9999 (driver_with [] (\<lambda>f. [])))) =
       [Write [0x7E, 0xFF, 0x06, 0x13, 0x00, 0x27, 0x0F, 0xEF]]"
  using play_advert_spec [of 0 "driver_with [] (\<lambda>f. [])"]
    play_advert_spec [of 10000 "driver_with [] (\<lambda>f. [])"]
    play_advert_spec [of 1 "driver_with [] (\<lambda>f. [])"]
    play_advert_spec [of 9999 "driver_with [] (\<lambda>f. [])"]
  by (simp add: driver_with_def)

subsection \<open>Timing policy\<close>

text \<open>
  Claim C2, as the code has it. After a frame is written (and only after: the
  write is the first new event of the trace, and no other write follows), the
  time slept is 200 ms for set-media (0x09), 1000 ms for reset (0x0C), 500 ms
  for the file-count queries (0x47, 0x48, 0x49, 0x4E), nothing for the play
  commands 0x03, 0x0D, 0x0F and 0x12, advert-play 0x13 and stop 0x16, and the
  driver's latency for every other command, advert-stop (0x15) among them.
\<close>

theorem settle_delay_spec:
  assumes "frame cmd dataL dataH = Inr f"
  shows "\<exists>evs. trace (snd (write_data cmd dataL dataH s)) = trace s @ Write f # evs
           \<and> written evs = []
           \<and> slept evs =
               (if cmd = 0x09 then 200
                else if cmd = 0x0C then 1000
                else if cmd \<in> {0x47, 0x48, 0x49, 0x4E} then 500
                else if cmd \<in> {0x03, 0x0D, 0x0F, 0x12, 0x13, 0x16} then 0
                else latency s)"
  using assms by (simp add: write_data_def sleep_def Let_def)

theorem settle_delay_spec_witness:
  "\<exists>evs. trace (snd (write_data 0x16 0 0 (driver_with [] (\<lambda>f. [])))) =
            trace (driver_with [] (\<lambda>f. [])) @ Write [0x7E, 0xFF, 0x06, 0x16, 0, 0, 0, 0xEF] # evs
         \<and> written evs = [] \<and> slept evs = 0"
  using settle_delay_spec [of "0x16" 0 0 "[0x7E, 0xFF, 0x06, 0x16, 0, 0, 0, 0xEF]" "driver_with [] (\<lambda>f. [])"]
  by (simp add: frame_def bytes_def)

text \<open>
  The claim as the specification words it gives advert-stop no delay. On a driver
  with the default latency, \<open>stop_advert\<close> writes its frame and sleeps 100 ms.
\<close>

theorem stop_advert_delay_counterexample:
  "trace (snd (stop_advert (driver_with [] (\<lambda>f. [])))) =
     [Write [0x7E, 0xFF, 0x06, 0x15, 0x00, 0x00, 0x00, 0xEF], Sleep 100]"
  by (simp add: stop_advert_def write_data_def frame_def bytes_def driver_with_def sleep_def)

subsection \<open>Silent normalisation\<close>

text \<open>
  Claim C9. \<open>set_volume\<close> clamps the percent to 0..100 before it scales: for
  every percent it writes the one frame of command 0x06 whose low data byte is
  \<open>floor(clamped * 30 / 100)\<close>, so a percent above 100 sends 30 and does what
  \<open>set_volume(100)\<close> does, and a negative one sends 0 and does what
  \<open>set_volume(0)\<close> does. \<open>set_eq\<close> writes the one frame of command 0x07
  whose low data byte is the preset when it is in 0..5 and 0 otherwise, so a
  preset outside 0..5 does what \<open>set_eq(0)\<close> does. Neither raises, whatever
  the argument.
\<close>

theorem silent_normalization:
  "set_volume p s = write_data 0x06 (max 0 (min 100 p) * 30 div 100) 0 s
   \<and> written (trace (snd (set_volume p s))) =
       written (trace s) @
       [[0x7E, 0xFF, 0x06, 0x06, 0x00, 0x00, word_of_int (max 0 (min 100 p) * 30 div 100), 0xEF]]
   \<and> (100 < p \<longrightarrow>
        set_volume p s = set_volume 100 s
        \<and> written (trace (snd (set_volume p s))) =
            written (trace s) @ [[0x7E, 0xFF, 0x06, 0x06, 0x00, 0x00, 0x1E, 0xEF]])
   \<and> (p < 0 \<longrightarrow>
        set_volume p s = set_volume 0 s
        \<and> written (trace (snd (set_volume p s))) =
            written (trace s) @ [[0x7E, 0xFF, 0x06, 0x06, 0x00, 0x00, 0x00, 0xEF]])
   \<and> set_eq e s = write_data 0x07 (if e < 0 \<or> 5 < e then 0 else e) 0 s
   \<and> written (trace (snd (set_eq e s))) =
       written (trace s) @
       [[0x7E, 0xFF, 0x06, 0x07, 0x00, 0x00, word_of_int (if e < 0 \<or> 5 < e then 0 else e), 0xEF]]
   \<and> (e < 0 \<or> 5 < e \<longrightarrow>
        set_eq e s = set_eq 0 s
        \<and> written (trace (snd (set_eq e s))) =
            written (trace s) @ [[0x7E, 0xFF, 0x06, 0x07, 0x00, 0x00, 0x00, 0xEF]])
   \<and> fst (set_volume p s) = Inr ()
   \<and> fst (set_eq e s) = Inr ()"
proof -
  note v = set_volume_written [of p s]
  note q = set_eq_written [of e s]
  have v_hi: "set_volume p s = set_volume 100 s" and v_hi_val: "max 0 (min 100 p) * 30 div 100 = 30"
    if "100 < p"
    using that by (simp_all add: set_volume_def)
  have v_lo: "set_volume p s = set_volume 0 s" and v_lo_val: "max 0 (min 100 p) * 30 div 100 = 0"
    if "p < 0"
    using that by (simp_all add: set_volume_def)
  have q_out: "set_eq e s = set_eq 0 s" if "e < 0 \<or> 5 < e"
    using that by (auto simp add: set_eq_def)
  have q_eq: "set_eq e s = write_data 0x07 (if e < 0 \<or> 5 < e then 0 else e) 0 s"
    by (simp add: set_eq_def)
  show ?thesis
  proof (intro conjI impI)
    show "set_volume p s = write_data 0x06 (max 0 (min 100 p) * 30 div 100) 0 s"
      by (rule set_volume_clamped)
    show "written (trace (snd (set_volume p s))) =
       written (trace s) @
       [[0x7E, 0xFF, 0x06, 0x06, 0x00, 0x00, word_of_int (max 0 (min 100 p) * 30 div 100), 0xEF]]"
      using v by simp
    show "set_volume p s = set_volume 100 s" if "100 < p"
      using that by (rule v_hi)
    show "written (trace (snd (set_volume p s))) =
            written (trace s) @ [[0x7E, 0xFF, 0x06, 0x06, 0x00, 0x00, 0x1E, 0xEF]]" if "100 < p"
      using v v_hi_val [OF that] by simp
    show "set_volume p s = set_volume 0 s" if "p < 0"
      using that by (rule v_lo)
    show "written (trace (snd (set_volume p s))) =
            written (trace s) @ [[0x7E, 0xFF, 0x06, 0x06, 0x00, 0x00, 0x00, 0xEF]]" if "p < 0"
      using v v_lo_val [OF that] by simp
    show "set_eq e s = write_data 0x07 (if e < 0 \<or> 5 < e then 0 else e) 0 s"
      by (rule q_eq)
    show "written (trace (snd (set_eq e s))) =
       written (trace s) @
       [[0x7E, 0xFF, 0x06, 0x07, 0x00, 0x00, word_of_int (if e < 0 \<or> 5 < e then 0 else e), 0xEF]]"
      using q by simp
    show "set_eq e s = set_eq 0 s" if "e < 0 \<or> 5 < e"
      using that by (rule q_out)
    show "written (trace (snd (set_eq e s))) =
            written (trace s) @ [[0x7E, 0xFF, 0x06, 0x07, 0x00, 0x00, 0x00, 0xEF]]" if "e < 0 \<or> 5 < e"
      using q that by auto
    show "fst (set_volume p s) = Inr ()"
      using v by simp
    show "fst (set_eq e s) = Inr ()"
      using q by simp
  qed
qed

theorem silent_normalization_witness:
  "set_volume 150 (driver_with [] (\<lambda>f. [])) = set_volume 100 (driver_with [] (\<lambda>f. []))
   \<and> written (trace (snd (set_volume 150 (driver_with [] (\<lambda>f. []))))) =
       [[0x7E, 0xFF, 0x06, 0x06, 0x00, 0x00, 0x1E, 0xEF]]
   \<and> set_volume (- 5) (driver_with [] (\<lambda>f. [])) = set_volume 0 (driver_with [] (\<lambda>f. []))
   \<and> written (trace (snd (set_volume (- 5) (driver_with [] (\<lambda>f. []))))) =
       [[0x7E, 0xFF, 0x06, 0x06, 0x00, 0x00, 0x00, 0xEF]]
   \<and> written (trace (snd (set_volume 50 (driver_with [] (\<lambda>f. []))))) =
       [[0x7E, 0xFF, 0x06, 0x06, 0x00, 0x00, 0x0F, 0xEF]]
   \<and> set_eq 9 (driver_with [] (\<lambda>f. [])) = set_eq 0 (driver_with [] (\<lambda>f. []))
   \<and> written (trace (snd (set_eq 9 (driver_with [] (\<lambda>f. []))))) =
       [[0x7E, 0xFF, 0x06, 0x07, 0x00, 0x00, 0x00, 0xEF]]
   \<and> written (trace (snd (set_eq 3 (driver_with [] (\<lambda>f. []))))) =
       [[0x7E, 0xFF, 0x06, 0x07, 0x00, 0x00, 0x03, 0xEF]]
   \<and> fst (set_volume 150 (driver_with [] (\<lambda>f. []))) = Inr ()
   \<and> fst (set_eq 9 (driver_with [] (\<lambda>f. []))) = Inr ()"
proof -
  have t: "written (trace (driver_with [] (\<lambda>f. []))) = []"
    by (simp add: driver_with_def)
  note hi = silent_normalization [of 150 "driver_with [] (\<lambda>f. [])" 9, simplified t, simplified]
  note lo = silent_normalization [of "- 5" "driver_with [] (\<lambda>f. [])" 9, simplified t, simplified]
  note mid = silent_normalization [of 50 "driver_with [] (\<lambda>f. [])" 3, simplified t, simplified]
  from hi lo mid show ?thesis
    by blast
qed

subsection \<open>File count by media source\<close>

text \<open>
  Claim C10. Without a folder, \<open>num_files\<close> takes the media source from its
  argument, or from the driver when the argument is None (or 0). For USB disk, SD
  and flash it writes the one frame of the query command 0x47, 0x48 or 0x49 and
  returns the data of the drained frame that echoes this command (else 0). For
  every other media source (AUX and sleep among them) it returns 0 and leaves the
  driver and the line exactly as they were: nothing is written.
\<close>

theorem num_files_media:
  assumes "m = (case a of None \<Rightarrow> media s | Some x \<Rightarrow> if x = 0 then media s else x)"
  shows "(m \<notin> {MEDIA_U_DISK, MEDIA_SD, MEDIA_FLASH} \<longrightarrow> num_files None a s = (Inr 0, s))
    \<and> (\<forall>(m', c) \<in> set [(MEDIA_U_DISK, 0x47), (MEDIA_SD, 0x48), (MEDIA_FLASH, 0x49)].
          m = m' \<longrightarrow>
            fst (num_files None a s) =
              Inr (case fst (read_response (snd (write_data c 0 0 s))) of
                     None \<Rightarrow> 0
                   | Some (c', d) \<Rightarrow> if c' = c then d else 0)
            \<and> written (trace (snd (num_files None a s))) =
                written (trace s) @ [[0x7E, 0xFF, 0x06, word_of_int c, 0x00, 0x00, 0x00, 0xEF]])"
proof (intro conjI impI)
  assume "m \<notin> {MEDIA_U_DISK, MEDIA_SD, MEDIA_FLASH}"
  with assms show "num_files None a s = (Inr 0, s)"
    by (simp add: num_files_def Let_def)
next
  have q: "fst (num_files None a s) =
              Inr (case fst (read_response (snd (write_data c 0 0 s))) of
                     None \<Rightarrow> 0
                   | Some (c', d) \<Rightarrow> if c' = c then d else 0)
            \<and> written (trace (snd (num_files None a s))) =
                written (trace s) @ [[0x7E, 0xFF, 0x06, word_of_int c, 0x00, 0x00, 0x00, 0xEF]]"
    if "map_of [(MEDIA_U_DISK, 0x47), (MEDIA_SD, 0x48), (MEDIA_FLASH, 0x49 :: int)] m = Some c"
      and "0 < c" and "c < 256" for c
  proof -
    from that have f: "frame c 0 0 = Inr [0x7E, 0xFF, 0x06, word_of_int c, 0x00, 0x00, 0x00, 0xEF]"
      by (simp add: frame_Inr)
    obtain u s1 where w: "write_data c 0 0 s = (Inr u, s1)"
      using write_data_Inr(1) [OF f, of s] by (cases "write_data c 0 0 s") auto
    from write_data_Inr(2) [OF f, of s] w
    have t: "written (trace s1) = written (trace s) @ [[0x7E, 0xFF, 0x06, word_of_int c, 0x00, 0x00, 0x00, 0xEF]]"
      by simp
    obtain r s2 where rr: "read_response s1 = (r, s2)"
      by (cases "read_response s1") auto
    with read_response_trace [of s1] have "trace s2 = trace s1"
      by simp
    with assms that w rr t show ?thesis
      by (simp add: num_files_def Let_def)
  qed
  show "\<forall>(m', c) \<in> set [(MEDIA_U_DISK, 0x47), (MEDIA_SD, 0x48), (MEDIA_FLASH, 0x49)].
          m = m' \<longrightarrow>
            fst (num_files None a s) =
              Inr (case fst (read_response (snd (write_data c 0 0 s))) of
                     None \<Rightarrow> 0
                   | Some (c', d) \<Rightarrow> if c' = c then d else 0)
            \<and> written (trace (snd (num_files None a s))) =
                written (trace s) @ [[0x7E, 0xFF, 0x06, word_of_int c, 0x00, 0x00, 0x00, 0xEF]]"
    using q [of "0x47"] q [of "0x48"] q [of "0x49"] by simp
qed

theorem num_files_media_witness:
  "num_files None (Some MEDIA_AUX) (driver_with [] (\<lambda>f. [])) = (Inr 0, driver_with [] (\<lambda>f. []))
   \<and> num_files None (Some MEDIA_SLEEP) (driver_with [] (\<lambda>f. [])) = (Inr 0, driver_with [] (\<lambda>f. []))
   \<and> written (trace (snd (num_files None None (driver_with [] (\<lambda>f. []))))) =
       [[0x7E, 0xFF, 0x06, 0x48, 0x00, 0x00, 0x00, 0xEF]]"
  using num_files_media [where m = 3 and a = "Some 3" and s = "driver_with [] (\<lambda>f. [])"]
    num_files_media [where m = 4 and a = "Some 4" and s = "driver_with [] (\<lambda>f. [])"]
    num_files_media [where m = 2 and a = None and s = "driver_with [] (\<lambda>f. [])"]
  by (simp add: driver_with_def)

subsection \<open>Queries answer only to their own echo\<close>

text \<open>
  Claim C7. Every query (status, mode, version, current file, EQ, the file
  counts by media source and by folder, volume) returns the data of the frame
  drained after its own write only when that frame echoes the command the query
  sent; with no frame drained, or another command echoed, status, mode, version
  and current file return None and the others 0. The volume query rescales the
  data; the folder is a byte.
\<close>

theorem query_echo:
  "(\<forall>(query, q) \<in> set [(get_status, 0x42), (get_mode, 0x45), (get_version, 0x46), (current_file, 0x4C)].
      fst (query s) =
        Inr (case fst (read_response (snd (write_data q 0 0 s))) of
               None \<Rightarrow> None
             | Some (c, d) \<Rightarrow> if c = q then Some d else None))
   \<and> (\<forall>(query, q) \<in> set [(get_eq, 0x44), (num_files None (Some MEDIA_U_DISK), 0x47),
                           (num_files None (Some MEDIA_SD), 0x48), (num_files None (Some MEDIA_FLASH), 0x49)].
      fst (query s) =
        Inr (case fst (read_response (snd (write_data q 0 0 s))) of
               None \<Rightarrow> 0
             | Some (c, d) \<Rightarrow> if c = q then d else 0))
   \<and> (0 \<le> folder \<and> folder < 256 \<longrightarrow>
      fst (num_files (Some folder) None s) =
        Inr (case fst (read_response (snd (write_data 0x4E folder 0 s))) of
               None \<Rightarrow> 0
             | Some (c, d) \<Rightarrow> if c = 0x4E then d else 0))
   \<and> fst (get_volume s) =
        Inr (case fst (read_response (snd (write_data 0x43 0 0 s))) of
               None \<Rightarrow> 0
             | Some (c, d) \<Rightarrow>
                 if c = 0x43 then int_of_float (float_mul (truediv d MAX_VOLUME) 100) else 0)"
proof (intro conjI impI)
  show "\<forall>(query, q) \<in> set [(get_status, 0x42), (get_mode, 0x45), (get_version, 0x46), (current_file, 0x4C)].
      fst (query s) =
        Inr (case fst (read_response (snd (write_data q 0 0 s))) of
               None \<Rightarrow> None
             | Some (c, d) \<Rightarrow> if c = q then Some d else None)"
    by (simp add: get_status_def get_mode_def get_version_def current_file_def query_fst)
  show "\<forall>(query, q) \<in> set [(get_eq, 0x44), (num_files None (Some MEDIA_U_DISK), 0x47),
                           (num_files None (Some MEDIA_SD), 0x48), (num_files None (Some MEDIA_FLASH), 0x49)].
      fst (query s) =
        Inr (case fst (read_response (snd (write_data q 0 0 s))) of
               None \<Rightarrow> 0
             | Some (c, d) \<Rightarrow> if c = q then d else 0)"
    by (simp add: get_eq_def num_files_def query_fst)
  show "fst (num_files (Some folder) None s) =
        Inr (case fst (read_response (snd (write_data 0x4E folder 0 s))) of
               None \<Rightarrow> 0
             | Some (c, d) \<Rightarrow> if c = 0x4E then d else 0)"
    if "0 \<le> folder \<and> folder < 256"
    using that by (simp add: num_files_def query_fst)
  show "fst (get_volume s) =
        Inr (case fst (read_response (snd (write_data 0x43 0 0 s))) of
               None \<Rightarrow> 0
             | Some (c, d) \<Rightarrow>
                 if c = 0x43 then int_of_float (float_mul (truediv d MAX_VOLUME) 100) else 0)"
    by (simp add: get_volume_def query_fst)
qed

theorem query_echo_witness:
  "fst (get_status (driver_with [] (\<lambda>f. [0x7E, 0xFF, 0x06, 0x42, 0x00, 0x02, 0x01, 0xFE, 0xB6, 0xEF])))
     = Inr (Some 0x0201)
   \<and> fst (get_mode (driver_with [] (\<lambda>f. [0x7E, 0xFF, 0x06, 0x42, 0x00, 0x02, 0x01, 0xFE, 0xB6, 0xEF])))
     = Inr None
   \<and> fst (get_eq (driver_with [] (\<lambda>f. [0x7E, 0xFF, 0x06, 0x42, 0x00, 0x02, 0x01, 0xFE, 0xB6, 0xEF])))
     = Inr 0
   \<and> fst (num_files (Some 1) None
             (driver_with [] (\<lambda>f. [0x7E, 0xFF, 0x06, 0x42, 0x00, 0x02, 0x01, 0xFE, 0xB6, 0xEF])))
     = Inr 0"
  using query_echo [of "driver_with [] (\<lambda>f. [0x7E, 0xFF, 0x06, 0x42, 0x00, 0x02, 0x01, 0xFE, 0xB6, 0xEF])" 1]
  by (simp add: eval_defs)

subsection \<open>Volume scaling\<close>

text \<open>
  Claim C8. For every percent in 0..100, \<open>set_volume\<close> writes the one frame
  of command 0x06 whose low data byte is \<open>floor(percent * 30 / 100)\<close>. For
  every raw value of the device's volume range 0..\<open>MAX_VOLUME\<close> echoed to the
  volume query, \<open>get_volume\<close> returns \<open>floor(r * 100 / 30)\<close>; a reply of
  raw value 15 gives 50, and 1, 29 and 30 give 3, 96 and 100.
\<close>

theorem volume_scaling:
  "(0 \<le> p \<and> p \<le> 100 \<longrightarrow>
      set_volume p s = write_data 0x06 (p * 30 div 100) 0 s
      \<and> written (trace (snd (set_volume p s))) =
          written (trace s) @ [[0x7E, 0xFF, 0x06, 0x06, 0x00, 0x00, word_of_int (p * 30 div 100), 0xEF]])
   \<and> (0 \<le> r \<and> r \<le> MAX_VOLUME
        \<and> fst (read_response (snd (write_data 0x43 0 0 s))) = Some (0x43, r) \<longrightarrow>
      fst (get_volume s) = Inr (r * 100 div 30))"
proof (intro conjI impI)
  assume p: "0 \<le> p \<and> p \<le> 100"
  then show eq: "set_volume p s = write_data 0x06 (p * 30 div 100) 0 s"
    by (simp add: set_volume_clamped)
  from p have "0 \<le> p * 30 div 100" and "p * 30 div 100 < 256"
    by auto
  then have "frame 0x06 (p * 30 div 100) 0 =
      Inr [0x7E, 0xFF, 0x06, 0x06, 0x00, 0x00, word_of_int (p * 30 div 100), 0xEF]"
    by (simp add: frame_Inr)
  then show "written (trace (snd (set_volume p s))) =
          written (trace s) @ [[0x7E, 0xFF, 0x06, 0x06, 0x00, 0x00, word_of_int (p * 30 div 100), 0xEF]]"
    by (simp only: eq write_data_Inr(2))
next
  assume r: "0 \<le> r \<and> r \<le> MAX_VOLUME
        \<and> fst (read_response (snd (write_data 0x43 0 0 s))) = Some (0x43, r)"
  then have "int_of_float (float_mul (truediv r 30) 100) = r * 100 div 30"
    by (intro volume_rescale) simp_all
  with r show "fst (get_volume s) = Inr (r * 100 div 30)"
    by (simp add: get_volume_def query_fst)
qed

theorem volume_scaling_witness:
  "written (trace (snd (set_volume 50 (driver_with [] (\<lambda>f. []))))) =
     [[0x7E, 0xFF, 0x06, 0x06, 0x00, 0x00, 0x0F, 0xEF]]
   \<and> written (trace (snd (set_volume 99 (driver_with [] (\<lambda>f. []))))) =
     [[0x7E, 0xFF, 0x06, 0x06, 0x00, 0x00, 0x1D, 0xEF]]
   \<and> fst (get_volume (driver_with [] (\<lambda>f. [0x7E, 0xFF, 0x06, 0x43, 0x00, 0x00, 0x0F, 0xFE, 0xA9, 0xEF])))
     = Inr 50
   \<and> fst (get_volume (driver_with [] (\<lambda>f. [0x7E, 0xFF, 0x06, 0x43, 0x00, 0x00, 0x01, 0xFE, 0xB7, 0xEF])))
     = Inr 3
   \<and> fst (get_volume (driver_with [] (\<lambda>f. [0x7E, 0xFF, 0x06, 0x43, 0x00, 0x00, 0x1D, 0xFE, 0x9B, 0xEF])))
     = Inr 96
   \<and> fst (get_volume (driver_with [] (\<lambda>f. [0x7E, 0xFF, 0x06, 0x43, 0x00, 0x00, 0x1E, 0xFE, 0x9A, 0xEF])))
     = Inr 100"
  using volume_scaling [of 50 "driver_with [] (\<lambda>f. [])"]
    volume_scaling [of 99 "driver_with [] (\<lambda>f. [])"]
    volume_scaling [of 50 "driver_with [] (\<lambda>f. [0x7E, 0xFF, 0x06, 0x43, 0x00, 0x00, 0x0F, 0xFE, 0xA9, 0xEF])" 15]
    volume_scaling [of 50 "driver_with [] (\<lambda>f. [0x7E, 0xFF, 0x06, 0x43, 0x00, 0x00, 0x01, 0xFE, 0xB7, 0xEF])" 1]
    volume_scaling [of 50 "driver_with [] (\<lambda>f. [0x7E, 0xFF, 0x06, 0x43, 0x00, 0x00, 0x1D, 0xFE, 0x9B, 0xEF])" 29]
    volume_scaling [of 50 "driver_with [] (\<lambda>f. [0x7E, 0xFF, 0x06, 0x43, 0x00, 0x00, 0x1E, 0xFE, 0x9A, 0xEF])" 30]
  by (simp add: eval_defs)

text \<open>
  Beyond the device's range the rescaling can fall one short of the floor, since
  it divides before it multiplies: a reply of raw value 69 gives 229.
\<close>

lemma get_volume_raw_69:
  "fst (read_response (snd (write_data 0x43 0 0
          (driver_with [] (\<lambda>f. [0x7E, 0xFF, 0x06, 0x43, 0x00, 0x00, 0x45, 0xFE, 0x73, 0xEF])))))
     = Some (0x43, 69)
   \<and> fst (get_volume (driver_with [] (\<lambda>f. [0x7E, 0xFF, 0x06, 0x43, 0x00, 0x00, 0x45, 0xFE, 0x73, 0xEF])))
     = Inr 229"
proof (intro conjI)
  show d: "fst (read_response (snd (write_data 0x43 0 0
          (driver_with [] (\<lambda>f. [0x7E, 0xFF, 0x06, 0x43, 0x00, 0x00, 0x45, 0xFE, 0x73, 0xEF])))))
     = Some (0x43, 69)"
    by (simp add: eval_defs)
  have "int_of_float (float_mul (truediv 69 30) 100) = 229"
    by code_simp
  with d show "fst (get_volume (driver_with [] (\<lambda>f. [0x7E, 0xFF, 0x06, 0x43, 0x00, 0x00, 0x45, 0xFE, 0x73, 0xEF])))
     = Inr 229"
    by (simp add: get_volume_def query_fst)
qed

subsection \<open>Construction\<close>

text \<open>
  Claim C3, as the code has it, for a media source that fits a byte. The
  constructor writes the set-media frame first and the status query second.
  It raises "DFPlayer could not be initialized." after these two writes
  whenever the drain after the status query gives no frame, or a frame that
  echoes another command than 0x42. When the drained frame echoes 0x42 with a
  status value other than 0, the constructor goes on to \<open>set_volume\<close> and
  \<open>set_eq\<close>, returns normally, and has written the four frames in this order.
\<close>

theorem init_spec:
  assumes "0 \<le> m" and "m < 256"
    and "s1 = snd (set_media m \<lparr>uart = u, latency = lat, media = m, trace = []\<rparr>)"
    and "read_response (snd (write_data 0x42 0 0 s1)) = (r, s2)"
  shows "written (trace s2) =
           [[0x7E, 0xFF, 0x06, 0x09, 0x00, 0x00, word_of_int m, 0xEF],
            [0x7E, 0xFF, 0x06, 0x42, 0x00, 0x00, 0x00, 0xEF]]
    \<and> (r = None \<or> (\<exists>c d. r = Some (c, d) \<and> c \<noteq> 0x42) \<longrightarrow>
         init u m volume_pct eq lat = (Inl (Exception ''DFPlayer could not be initialized.''), s2))
    \<and> ((\<exists>d. r = Some (0x42, d) \<and> d \<noteq> 0) \<longrightarrow>
         init u m volume_pct eq lat = set_eq eq (snd (set_volume volume_pct s2))
         \<and> fst (init u m volume_pct eq lat) = Inr ()
         \<and> written (trace (snd (init u m volume_pct eq lat))) =
             [[0x7E, 0xFF, 0x06, 0x09, 0x00, 0x00, word_of_int m, 0xEF],
              [0x7E, 0xFF, 0x06, 0x42, 0x00, 0x00, 0x00, 0xEF],
              [0x7E, 0xFF, 0x06, 0x06, 0x00, 0x00,
               word_of_int (max 0 (min 100 volume_pct) * 30 div 100), 0xEF],
              [0x7E, 0xFF, 0x06, 0x07, 0x00, 0x00,
               word_of_int (if eq < 0 \<or> 5 < eq then 0 else eq), 0xEF]])"
proof -
  let ?s0 = "\<lparr>uart = u, latency = lat, media = m, trace = []\<rparr>"
  let ?fail = "(Inl (Exception ''DFPlayer could not be initialized.''), s2)"
  from assms(1,2) have f9: "frame 0x09 m 0 = Inr [0x7E, 0xFF, 0x06, 0x09, 0x00, 0x00, word_of_int m, 0xEF]"
    by (simp add: frame_Inr)
  have sm: "set_media m ?s0 = write_data 0x09 m 0 ?s0"
    by (simp add: set_media_def)
  have m1: "fst (set_media m ?s0) = Inr ()"
    by (simp only: sm write_data_Inr(1) [OF f9])
  have "written (trace (snd (set_media m ?s0))) = written (trace ?s0) @ [[0x7E, 0xFF, 0x06, 0x09, 0x00, 0x00, word_of_int m, 0xEF]]"
    by (simp only: sm write_data_Inr(2) [OF f9])
  with assms(3) have t1: "written (trace s1) = [[0x7E, 0xFF, 0x06, 0x09, 0x00, 0x00, word_of_int m, 0xEF]]"
    by simp
  from m1 assms(3) have p1: "set_media m ?s0 = (Inr (), s1)"
    by (cases "set_media m ?s0") simp
  have f42: "frame 0x42 0 0 = Inr [0x7E, 0xFF, 0x06, 0x42, 0x00, 0x00, 0x00, 0xEF]"
    by (simp add: frame_Inr)
  have "trace s2 = trace (snd (write_data 0x42 0 0 s1))"
    using read_response_trace [of "snd (write_data 0x42 0 0 s1)"] assms(4) by simp
  with write_data_Inr(2) [OF f42, of s1] t1
  have t2: "written (trace s2) =
           [[0x7E, 0xFF, 0x06, 0x09, 0x00, 0x00, word_of_int m, 0xEF],
            [0x7E, 0xFF, 0x06, 0x42, 0x00, 0x00, 0x00, 0xEF]]"
    by simp
  have gs: "get_status s1 =
      (Inr (case r of None \<Rightarrow> None | Some (c, d) \<Rightarrow> if c = 0x42 then Some d else None), s2)"
    using assms(4) by (simp add: get_status_def query_pair)
  have fail: "init u m volume_pct eq lat = ?fail"
    if "r = None \<or> (\<exists>c d. r = Some (c, d) \<and> c \<noteq> 0x42)"
    using that p1 gs by (auto simp add: init_def)
  have ok: "init u m volume_pct eq lat = set_eq eq (snd (set_volume volume_pct s2))"
    if "\<exists>d. r = Some (0x42, d) \<and> d \<noteq> 0"
  proof -
    obtain s3 where "set_volume volume_pct s2 = (Inr (), s3)"
      using set_volume_written [of volume_pct s2] by (cases "set_volume volume_pct s2") auto
    with that p1 gs show ?thesis
      by (auto simp add: init_def)
  qed
  have tr: "written (trace (snd (set_eq eq (snd (set_volume volume_pct s2))))) =
             [[0x7E, 0xFF, 0x06, 0x09, 0x00, 0x00, word_of_int m, 0xEF],
              [0x7E, 0xFF, 0x06, 0x42, 0x00, 0x00, 0x00, 0xEF],
              [0x7E, 0xFF, 0x06, 0x06, 0x00, 0x00,
               word_of_int (max 0 (min 100 volume_pct) * 30 div 100), 0xEF],
              [0x7E, 0xFF, 0x06, 0x07, 0x00, 0x00,
               word_of_int (if eq < 0 \<or> 5 < eq then 0 else eq), 0xEF]]"
    using set_eq_written [of eq "snd (set_volume volume_pct s2)"]
      set_volume_written [of volume_pct s2] t2
    by simp
  from t2 fail ok tr set_eq_written [of eq "snd (set_volume volume_pct s2)"] show ?thesis
    by simp
qed

theorem init_spec_witness:
  "init \<lparr>rx_buf = [], device = (\<lambda>f. [])\<rparr> MEDIA_SD 50 0 100 =
     (Inl (Exception ''DFPlayer could not be initialized.''),
      \<lparr>uart = \<lparr>rx_buf = [], device = (\<lambda>f. [])\<rparr>, latency = 100, media = MEDIA_SD,
       trace = [Write [0x7E, 0xFF, 0x06, 0x09, 0x00, 0x00, 0x02, 0xEF], Sleep 200,
                Write [0x7E, 0xFF, 0x06, 0x42, 0x00, 0x00, 0x00, 0xEF], Sleep 100]\<rparr>)
   \<and> fst (init \<lparr>rx_buf = [],
                 device = (\<lambda>f. if f ! 3 = 0x42
                               then [0x7E, 0xFF, 0x06, 0x42, 0x00, 0x02, 0x00, 0xFE, 0xB7, 0xEF]
                               else [])\<rparr>
            MEDIA_SD 50 0 100) = Inr ()
   \<and> written (trace (snd (init \<lparr>rx_buf = [],
                 device = (\<lambda>f. if f ! 3 = 0x42
                               then [0x7E, 0xFF, 0x06, 0x42, 0x00, 0x02, 0x00, 0xFE, 0xB7, 0xEF]
                               else [])\<rparr>
            MEDIA_SD 50 0 100))) =
       [[0x7E, 0xFF, 0x06, 0x09, 0x00, 0x00, 0x02, 0xEF],
        [0x7E, 0xFF, 0x06, 0x42, 0x00, 0x00, 0x00, 0xEF],
        [0x7E, 0xFF, 0x06, 0x06, 0x00, 0x00, 0x0F, 0xEF],
        [0x7E, 0xFF, 0x06, 0x07, 0x00, 0x00, 0x00, 0xEF]]"
proof -
  let ?u = "\<lparr>rx_buf = [], device = (\<lambda>f. [])\<rparr>"
  let ?v = "\<lparr>rx_buf = [], device = (\<lambda>f :: byte list. if f ! 3 = 0x42
                               then [0x7E, 0xFF, 0x06, 0x42, 0x00, 0x02, 0x00, 0xFE, 0xB7, 0xEF]
                               else [] :: byte list)\<rparr>"
  let ?s2 = "\<lparr>uart = ?u, latency = 100, media = MEDIA_SD,
       trace = [Write [0x7E, 0xFF, 0x06, 0x09, 0x00, 0x00, 0x02, 0xEF], Sleep 200,
                Write [0x7E, 0xFF, 0x06, 0x42, 0x00, 0x00, 0x00, 0xEF], Sleep 100]\<rparr>"
  let ?t2 = "\<lparr>uart = ?v, latency = 100, media = MEDIA_SD,
       trace = [Write [0x7E, 0xFF, 0x06, 0x09, 0x00, 0x00, 0x02, 0xEF], Sleep 200,
                Write [0x7E, 0xFF, 0x06, 0x42, 0x00, 0x00, 0x00, 0xEF], Sleep 100]\<rparr>"
  have a: "read_response (snd (write_data 0x42 0 0
             (snd (set_media 2 \<lparr>uart = ?u, latency = 100, media = 2, trace = []\<rparr>)))) = (None, ?s2)"
    by (simp add: set_media_def eval_defs)
  have b: "read_response (snd (write_data 0x42 0 0
             (snd (set_media 2 \<lparr>uart = ?v, latency = 100, media = 2, trace = []\<rparr>)))) =
           (Some (0x42, 0x0200), ?t2)"
    by (simp add: set_media_def eval_defs)
  have m: "(0 :: int) \<le> 2" "(2 :: int) < 256"
    by simp_all
  note silent = init_spec [OF m refl a, of 50 0, simplified]
  note answering = init_spec [OF m refl b, of 50 0, simplified]
  from silent answering show ?thesis
    by blast
qed

text \<open>
  The claim as the specification words it lets construction fail only when the
  status query yields no valid frame. A device that answers the status query with
  a valid frame of command 0x40 makes the drain yield that frame, and
  construction fails.
\<close>

theorem init_echo_counterexample:
  "fst (read_response (snd (write_data 0x42 0 0
          (snd (set_media MEDIA_SD
                 \<lparr>uart = \<lparr>rx_buf = [],
                           device = (\<lambda>f. [0x7E, 0xFF, 0x06, 0x40, 0x00, 0x00, 0x01, 0xFE, 0xBA, 0xEF])\<rparr>,
                  latency = 100, media = MEDIA_SD, trace = []\<rparr>)))))
     = Some (0x40, 1)
   \<and> fst (init \<lparr>rx_buf = [],
                 device = (\<lambda>f. [0x7E, 0xFF, 0x06, 0x40, 0x00, 0x00, 0x01, 0xFE, 0xBA, 0xEF])\<rparr>
            MEDIA_SD 50 0 100)
     = Inl (Exception ''DFPlayer could not be initialized.'')"
  by (simp add: init_def set_media_def get_status_def eval_defs)

subsection \<open>Response poller\<close>

text \<open>
  Claim C1 says that the poller discards an invalid frame and goes on draining,
  so that a valid frame behind an invalid one is the result. The loop of
  \<open>_read_response\<close> ends at the first None of \<open>_read_data\<close>, which is its
  answer to an empty line and to an invalid frame alike. With an invalid frame
  (wrong start byte) ahead of a valid status frame on the line, the poller
  returns None and leaves the valid frame unread; with a valid frame ahead of
  both, it returns that first frame, not the last valid one.
\<close>


theorem read_response_stops_at_invalid:
  "read_response
     (driver_with ([0x00, 0xFF, 0x06, 0x42, 0x00, 0x02, 0x00, 0xFE, 0xB7, 0xEF] @
                   [0x7E, 0xFF, 0x06, 0x42, 0x00, 0x02, 0x01, 0xFE, 0xB6, 0xEF]) (\<lambda>f. []))
     = (None, driver_with [0x7E, 0xFF, 0x06, 0x42, 0x00, 0x02, 0x01, 0xFE, 0xB6, 0xEF] (\<lambda>f. []))
   \<and> read_response
     (driver_with ([0x7E, 0xFF, 0x06, 0x3F, 0x00, 0x00, 0x02, 0xFE, 0xBA, 0xEF] @
                   [0x00, 0xFF, 0x06, 0x42, 0x00, 0x02, 0x00, 0xFE, 0xB7, 0xEF] @
                   [0x7E, 0xFF, 0x06, 0x42, 0x00, 0x02, 0x01, 0xFE, 0xB6, 0xEF]) (\<lambda>f. []))
     = (Some (0x3F, 2),
        driver_with [0x7E, 0xFF, 0x06, 0x42, 0x00, 0x02, 0x01, 0xFE, 0xB6, 0xEF] (\<lambda>f. []))"
  by (simp add: eval_defs)

end
